theory Spec2Isabelle
  imports Main
begin

section \<open>JavaScript values, errors and asynchronous calls\<close>

text \<open>
  The security helper of \<^verbatim>\<open>src/security/index.js\<close> handles opaque JavaScript values
  (the principal, the decoded claims of a token) and tests them for truthiness, strict
  equality and property access. They are modelled by a small datatype of JSON-like
  values; numbers are integers, which is all the helper ever reads.
\<close>

datatype jsval =
    Undefined
  | Null
  | Bool bool
  | Num int
  | Str string
  | Obj "(string \<times> jsval) list"

text \<open>A thrown \<^verbatim>\<open>Error\<close> with its message; the empty message is the falsy one.\<close>

datatype js_error = Error string

fun message :: "js_error \<Rightarrow> string" where
  "message (Error m) = m"

text \<open>JavaScript truthiness, as read by \<^verbatim>\<open>if (x)\<close>, \<^verbatim>\<open>!x\<close> and \<^verbatim>\<open>x || y\<close>.\<close>

fun truthy :: "jsval \<Rightarrow> bool" where
  "truthy Undefined = False"
| "truthy Null = False"
| "truthy (Bool b) = b"
| "truthy (Num n) = (n \<noteq> 0)"
| "truthy (Str s) = (s \<noteq> [])"
| "truthy (Obj fs) = True"

text \<open>
  Property read \<^verbatim>\<open>v.k\<close>: a TypeError on \<^verbatim>\<open>undefined\<close> and \<^verbatim>\<open>null\<close>, the field of an
  object when it has one, \<^verbatim>\<open>undefined\<close> otherwise.
\<close>

fun get_prop :: "jsval \<Rightarrow> string \<Rightarrow> js_error + jsval" where
  "get_prop Undefined k = Inl (Error (''Cannot read property '' @ k @ '' of undefined''))"
| "get_prop Null k = Inl (Error (''Cannot read property '' @ k @ '' of null''))"
| "get_prop (Obj fs) k = Inr (case map_of fs k of None \<Rightarrow> Undefined | Some v \<Rightarrow> v)"
| "get_prop v k = Inr Undefined"

text \<open>
  \<^verbatim>\<open>String.prototype.split(' ')\<close>: the string is cut at every space; an empty string gives
  one empty segment, and two adjacent spaces give an empty segment between them.
\<close>

fun js_split :: "char \<Rightarrow> string \<Rightarrow> string list" where
  "js_split c [] = [[]]"
| "js_split c (x # xs) =
     (if x = c then [] # js_split c xs
      else (case js_split c xs of
              [] \<Rightarrow> [[x]]
            | seg # segs \<Rightarrow> (x # seg) # segs))"

text \<open>
  Array destructuring \<^verbatim>\<open>const [a, b] = parts\<close>: an element past the end of the array is
  \<^verbatim>\<open>undefined\<close>, written \<open>None\<close>.
\<close>

definition element :: "string list \<Rightarrow> nat \<Rightarrow> string option" where
  "element parts i = (if i < length parts then Some (parts ! i) else None)"

text \<open>A string or \<^verbatim>\<open>undefined\<close> inside a template literal \<^verbatim>\<open>`${x}`\<close>.\<close>

fun template :: "string option \<Rightarrow> string" where
  "template None = ''undefined''"
| "template (Some s) = s"

subsection \<open>Calls that may throw and change the outside world\<close>

text \<open>
  Every \<^verbatim>\<open>await\<close> of the helper is a call to a collaborator. A collaborator call takes
  the state of the outside world \<open>'w\<close> (secret storage, attempt counters, the clock) and
  returns either a thrown error (\<open>Inl\<close>) or a value (\<open>Inr\<close>), with the new state.
  The helper itself runs over a \<open>world\<close>: the outside state together with the list of
  collaborator calls made so far, so that "this collaborator is never invoked" is a
  statement about \<open>calls\<close>.
\<close>

datatype call =
    IsPaired
  | GetSecret
  | GetCertificate
  | Attempt string
  | Authenticate jsval jsval string
  | VerifyUser jsval
  | JwtSign jsval string string
  | JwtVerify "string option" string "string list"

record 'w world =
  calls :: "call list"
  ext :: 'w

type_synonym ('w, 'a) extcall = "'w \<Rightarrow> (js_error + 'a) \<times> 'w"
type_synonym ('w, 'a) action = "'w world \<Rightarrow> (js_error + 'a) \<times> 'w world"

definition invoke :: "call \<Rightarrow> ('w, 'a) extcall \<Rightarrow> ('w, 'a) action" where
  "invoke c f s =
     (case f (ext s) of (r, w') \<Rightarrow> (r, \<lparr>calls = calls s @ [c], ext = w'\<rparr>))"

definition returnA :: "'a \<Rightarrow> ('w, 'a) action" where
  "returnA x s = (Inr x, s)"

definition throwA :: "js_error \<Rightarrow> ('w, 'a) action" where
  "throwA e s = (Inl e, s)"

text \<open>Sequencing: \<^verbatim>\<open>const x = await m; k(x)\<close>. A throw of \<open>m\<close> skips \<open>k\<close>.\<close>

definition bindA :: "('w, 'a) action \<Rightarrow> ('a \<Rightarrow> ('w, 'b) action) \<Rightarrow> ('w, 'b) action" where
  "bindA m k s =
     (case m s of
        (Inl e, s') \<Rightarrow> (Inl e, s')
      | (Inr x, s') \<Rightarrow> k x s')"

text \<open>\<^verbatim>\<open>try { m } catch (err) { h(err) }\<close>.\<close>

definition catchA :: "('w, 'a) action \<Rightarrow> (js_error \<Rightarrow> ('w, 'a) action) \<Rightarrow> ('w, 'a) action" where
  "catchA m h s =
     (case m s of
        (Inl e, s') \<Rightarrow> h e s'
      | (Inr x, s') \<Rightarrow> (Inr x, s'))"

text \<open>A synchronous expression that may throw.\<close>

definition liftE :: "js_error + 'a \<Rightarrow> ('w, 'a) action" where
  "liftE r s = (r, s)"

section \<open>Collaborators\<close>

text \<open>
  The module imports \<^verbatim>\<open>jsonwebtoken\<close> and \<^verbatim>\<open>+/authentication\<close> and receives \<^verbatim>\<open>cloud\<close>
  and \<^verbatim>\<open>securityConfig\<close> as arguments. None of them is part of the helper; they are
  parameters of the model, with the call shapes the helper uses.
\<close>

record securityConfig =
  tokenExpiry :: jsval
  enabled :: bool
  useCloud :: bool

record 'w authentication_api =
  auth_getSecret :: "('w, string) extcall"
  auth_attempt :: "string \<Rightarrow> ('w, bool) extcall"
  auth_authenticate :: "jsval \<Rightarrow> jsval \<Rightarrow> string \<Rightarrow> ('w, jsval) extcall"
  auth_verifyUser :: "(jsval \<Rightarrow> ('w, bool) extcall) option"

text \<open>
  \<open>cloud_getPairingInfo\<close> is the \<^verbatim>\<open>botId\<close> field of the object that
  \<^verbatim>\<open>cloud.getPairingInfo()\<close> returns, \<open>None\<close> when there is none.
\<close>

record 'w cloud_api =
  cloud_isPaired :: "('w, bool) extcall"
  cloud_getPairingInfo :: "string option"
  cloud_getCertificate :: "('w, string) extcall"

text \<open>
  \<^verbatim>\<open>jwt.sign(payload, secret, {issuer, expiresIn, algorithm})\<close> and
  \<^verbatim>\<open>jwt.verify(token, secret, {algorithms})\<close>. Both read the clock, so they are calls
  on the outside world as well. \<open>jwt_alg\<close> is the algorithm a token states in its
  header (\<^verbatim>\<open>jwt.decode(token, {complete: true}).header.alg\<close>).
\<close>

record sign_options =
  issuer :: string
  expiresIn :: jsval
  algorithm :: string

record 'w jwt_api =
  jwt_sign :: "jsval \<Rightarrow> string \<Rightarrow> sign_options \<Rightarrow> ('w, string) extcall"
  jwt_verify :: "string option \<Rightarrow> string \<Rightarrow> string list \<Rightarrow> ('w, jsval) extcall"
  jwt_alg :: "string \<Rightarrow> string option"

record 'w deps =
  config :: securityConfig
  authentication :: "'w authentication_api"
  cloud :: "'w cloud_api"
  jwt :: "'w jwt_api"

section \<open>The security helper\<close>

text \<open>
  What the module computes once, when it is constructed (lines 22 to 24):
  \<^verbatim>\<open>isCloudPaired = useCloud && (await cloud.isPaired())\<close> and
  \<^verbatim>\<open>{ botId } = (isCloudPaired && cloud.getPairingInfo()) || {}\<close>.
\<close>

record snapshot =
  isCloudPaired :: bool
  botId :: "string option"

definition security :: "'w deps \<Rightarrow> ('w, snapshot) action" where
  "security d =
     (if useCloud (config d) then
        bindA (invoke IsPaired (cloud_isPaired (cloud d))) (\<lambda>paired.
          returnA \<lparr>isCloudPaired = paired,
                   botId = (if paired then cloud_getPairingInfo (cloud d) else None)\<rparr>)
      else returnA \<lparr>isCloudPaired = False, botId = None\<rparr>)"

text \<open>The result object of \<^verbatim>\<open>login\<close> and \<^verbatim>\<open>refreshToken\<close>.\<close>

datatype result =
    Success "string option"
  | Failure string

text \<open>
  The two calls into \<^verbatim>\<open>jsonwebtoken\<close>, as the helper writes them: signing always with
  issuer \<^verbatim>\<open>bot.root\<close>, the configured expiry and HS256 (line 28); verification with an
  allow-list of exactly one algorithm (lines 86 and 128).
\<close>

definition jwtSign :: "'w deps \<Rightarrow> jsval \<Rightarrow> string \<Rightarrow> ('w, string) action" where
  "jwtSign d payload secret =
     invoke (JwtSign payload secret ''HS256'')
       (jwt_sign (jwt d) payload secret
          \<lparr>issuer = ''bot.root'', expiresIn = tokenExpiry (config d),
           algorithm = ''HS256''\<rparr>)"

definition jwtVerify ::
  "'w deps \<Rightarrow> string option \<Rightarrow> string \<Rightarrow> string \<Rightarrow> ('w, jsval) action" where
  "jwtVerify d tok secret alg =
     invoke (JwtVerify tok secret [alg]) (jwt_verify (jwt d) tok secret [alg])"

definition buildToken :: "'w deps \<Rightarrow> jsval \<Rightarrow> ('w, string) action" where
  "buildToken d loginUser =
     bindA (invoke GetSecret (auth_getSecret (authentication d))) (\<lambda>secret.
       jwtSign d (Obj [(''user'', loginUser)]) secret)"

text \<open>
  The choice of key and algorithm for verification, written twice in the source
  (lines 75 to 84 in \<^verbatim>\<open>authenticateWithError\<close>, lines 117 to 126 in
  \<^verbatim>\<open>getUserIdentity\<close>): the cloud certificate with RS256 when paired, the local secret
  with HS256 otherwise.
\<close>

definition verificationKey :: "'w deps \<Rightarrow> snapshot \<Rightarrow> ('w, string \<times> string) action" where
  "verificationKey d snap =
     (if isCloudPaired snap then
        bindA (invoke GetCertificate (cloud_getCertificate (cloud d)))
          (\<lambda>secret. returnA (secret, ''RS256''))
      else
        bindA (invoke GetSecret (auth_getSecret (authentication d)))
          (\<lambda>secret. returnA (secret, ''HS256'')))"

text \<open>\<^verbatim>\<open>login(user, password, ip = 'all')\<close>; an omitted \<^verbatim>\<open>ip\<close> is \<open>None\<close>.\<close>

definition default_ip :: "string option \<Rightarrow> string" where
  "default_ip ip_arg = (case ip_arg of None \<Rightarrow> ''all'' | Some i \<Rightarrow> i)"

definition login ::
  "'w deps \<Rightarrow> snapshot \<Rightarrow> jsval \<Rightarrow> jsval \<Rightarrow> string option \<Rightarrow> ('w, result) action" where
  "login d snap user password ip_arg =
     (let ip = default_ip ip_arg in
      if isCloudPaired snap then
        returnA (Failure
          ''Root authentication is disabled when using Botpress Cloud [BPCLOUDERR]'')
      else
        bindA (invoke (Attempt ip) (auth_attempt (authentication d) ip)) (\<lambda>canAttempt.
          if \<not> canAttempt then
            returnA (Failure ''Too many login attempts. Try again later.'')
          else
            bindA (invoke (Authenticate user password ip)
                     (auth_authenticate (authentication d) user password ip)) (\<lambda>loginUser.
              if truthy loginUser then
                bindA (buildToken d loginUser) (\<lambda>t. returnA (Success (Some t)))
              else
                returnA (Failure ''Bad username / password''))))"

text \<open>
  The hook \<^verbatim>\<open>authentication.verifyUser ? await authentication.verifyUser(decoded) : true\<close>.
\<close>

definition verifyUser :: "'w deps \<Rightarrow> jsval \<Rightarrow> ('w, bool) action" where
  "verifyUser d decoded =
     (case auth_verifyUser (authentication d) of
        None \<Rightarrow> returnA True
      | Some hook \<Rightarrow> invoke (VerifyUser decoded) (hook decoded))"

definition authenticateWithError :: "'w deps \<Rightarrow> snapshot \<Rightarrow> string \<Rightarrow> ('w, jsval) action" where
  "authenticateWithError d snap authHeader =
     (let parts = js_split CHR '' '' authHeader;
          scheme = element parts 0;
          token = element parts 1 in
      if scheme \<noteq> Some ''Bearer'' then
        throwA (Error (''Wrong scheme '' @ template scheme @ '', expected Bearer''))
      else
        catchA
          (bindA (verificationKey d snap) (\<lambda>(secret, algorithm).
           bindA (jwtVerify d token secret algorithm) (\<lambda>decoded.
           bindA (verifyUser d decoded) (\<lambda>verified.
           bindA (liftE (get_prop decoded ''identity_proof_only'')) (\<lambda>proof_only.
             if truthy proof_only then returnA (Bool False)
             else
               bindA (liftE (get_prop decoded ''aud'')) (\<lambda>aud.
                 if aud \<noteq> Str (''urn:bot/'' @ template (botId snap)) then
                   returnA (Bool False)
                 else if verified then liftE (get_prop decoded ''user'')
                 else returnA (Bool False)))))))
          (\<lambda>err. throwA (Error ''The token is invalid or expired'')))"

definition authenticate :: "'w deps \<Rightarrow> snapshot \<Rightarrow> string \<Rightarrow> ('w, jsval) action" where
  "authenticate d snap authHeader =
     catchA (bindA (authenticateWithError d snap authHeader) (\<lambda>user. returnA user))
       (\<lambda>err. returnA (Bool False))"

definition getUserIdentity ::
  "'w deps \<Rightarrow> snapshot \<Rightarrow> string option \<Rightarrow> ('w, jsval) action" where
  "getUserIdentity d snap tok =
     bindA (verificationKey d snap) (\<lambda>(secret, algorithm).
     bindA (jwtVerify d tok secret algorithm) (\<lambda>decoded.
     bindA (verifyUser d decoded) (\<lambda>verified.
     bindA (liftE (get_prop decoded ''aud'')) (\<lambda>aud.
       if aud \<noteq> Str (''urn:bot/'' @ template (botId snap)) then returnA (Bool False)
       else if verified then liftE (get_prop decoded ''user'')
       else returnA (Bool False)))))"

definition refreshToken :: "'w deps \<Rightarrow> snapshot \<Rightarrow> string \<Rightarrow> ('w, result) action" where
  "refreshToken d snap authHeader =
     (if \<not> enabled (config d) then
        (let parts = js_split CHR '' '' authHeader;
             scheme = element parts 0;
             token = element parts 1 in
         if scheme \<noteq> Some ''Bearer'' then
           returnA (Failure (''Wrong scheme '' @ template scheme @ '', expected Bearer''))
         else returnA (Success token))
      else
        catchA
          (bindA (authenticateWithError d snap authHeader) (\<lambda>loginUser.
             bindA (buildToken d loginUser) (\<lambda>t. returnA (Success (Some t)))))
          (\<lambda>err. returnA (Failure
             (if message err \<noteq> [] then message err
              else ''The token is invalid or expired''))))"

section \<open>A reference world\<close>

text \<open>
  A concrete outside world on which the helper can be run: a symbolic token library
  that remembers every token it signed (so only signed tokens verify, and only under
  the key and algorithm they were signed with), a credential check that knows one
  account, and a throttle that refuses the blocked addresses. A token is the name of
  its algorithm, a dot and a serial; the payload a token was signed over gets the
  \<^verbatim>\<open>iat\<close>, \<^verbatim>\<open>exp\<close> and \<^verbatim>\<open>iss\<close> claims added, as \<^verbatim>\<open>jsonwebtoken\<close> does, and nothing else.
\<close>

text \<open>
  The lifetime \<^verbatim>\<open>expiresIn\<close>: a number is a count of seconds; a string is a time span
  read as \<^verbatim>\<open>jsonwebtoken\<close> reads it, a whole number, spaces and a unit (milliseconds
  when there is no unit), and the expiry is the issue time plus the span in whole
  seconds. Anything else makes \<^verbatim>\<open>jwt.sign\<close> throw.
\<close>

definition is_digit :: "char \<Rightarrow> bool" where
  "is_digit c = (c \<in> set ''0123456789'')"

definition lower :: "char \<Rightarrow> char" where
  "lower c =
     (let n = (of_char c :: nat) in if 65 \<le> n \<and> n \<le> 90 then char_of (n + 32) else c)"

definition decimal :: "string \<Rightarrow> nat" where
  "decimal ds = foldl (\<lambda>n c. 10 * n + ((of_char c :: nat) - 48)) 0 ds"

definition span_units :: "(string \<times> nat) list" where
  "span_units =
     [(''milliseconds'', 1), (''millisecond'', 1), (''msecs'', 1), (''msec'', 1), (''ms'', 1),
      (''seconds'', 1000), (''second'', 1000), (''secs'', 1000), (''sec'', 1000), (''s'', 1000),
      (''minutes'', 60000), (''minute'', 60000), (''mins'', 60000), (''min'', 60000),
      (''m'', 60000),
      (''hours'', 3600000), (''hour'', 3600000), (''hrs'', 3600000), (''hr'', 3600000),
      (''h'', 3600000),
      (''days'', 86400000), (''day'', 86400000), (''d'', 86400000),
      (''weeks'', 604800000), (''week'', 604800000), (''w'', 604800000),
      (''years'', 31557600000), (''year'', 31557600000), (''yrs'', 31557600000),
      (''yr'', 31557600000), (''y'', 31557600000)]"

definition timespan_ms :: "string \<Rightarrow> nat option" where
  "timespan_ms s =
     (let ds = takeWhile is_digit s;
          unit = map lower (dropWhile (\<lambda>c. c = CHR '' '') (dropWhile is_digit s))
      in if ds = [] then None
         else (case (if unit = [] then Some 1 else map_of span_units unit) of
                 None \<Rightarrow> None
               | Some u \<Rightarrow> Some (decimal ds * u)))"

definition expiry :: "jsval \<Rightarrow> int \<Rightarrow> int option" where
  "expiry span iat =
     (case span of
        Num n \<Rightarrow> Some (iat + n)
      | Str s \<Rightarrow> (case timespan_ms s of
                   None \<Rightarrow> None
                 | Some ms \<Rightarrow> Some (iat + int (ms div 1000)))
      | _ \<Rightarrow> None)"

record ref_world =
  clock :: int
  issued :: "(string \<times> string \<times> jsval \<times> int) list"
  blocked :: "string list"

definition ref_sign :: "jsval \<Rightarrow> string \<Rightarrow> sign_options \<Rightarrow> (ref_world, string) extcall" where
  "ref_sign payload key opts w =
     (case expiry (expiresIn opts) (clock w) of
        None \<Rightarrow>
          (Inl (Error ''expiresIn should be a number of seconds or a timespan string''), w)
      | Some exp \<Rightarrow>
          (let t = algorithm opts @ ''.'' @ replicate (Suc (length (issued w))) CHR ''t'';
               claims = (case payload of
                           Obj fs \<Rightarrow> Obj (fs @ [(''iat'', Num (clock w)), (''exp'', Num exp),
                                              (''iss'', Str (issuer opts))])
                         | v \<Rightarrow> v)
           in (Inr t, w\<lparr>issued := (t, key, claims, exp) # issued w\<rparr>)))"

definition ref_alg :: "string \<Rightarrow> string option" where
  "ref_alg t = Some (takeWhile (\<lambda>c. c \<noteq> CHR ''.'') t)"

definition ref_verify ::
  "string option \<Rightarrow> string \<Rightarrow> string list \<Rightarrow> (ref_world, jsval) extcall" where
  "ref_verify tok key algs w =
     (case tok of
        None \<Rightarrow> (Inl (Error ''jwt must be provided''), w)
      | Some t \<Rightarrow>
          (case map_of (issued w) t of
             None \<Rightarrow> (Inl (Error ''jwt malformed''), w)
           | Some (k, claims, exp) \<Rightarrow>
               if ref_alg t \<notin> Some ` set algs then (Inl (Error ''invalid algorithm''), w)
               else if k \<noteq> key then (Inl (Error ''invalid signature''), w)
               else if exp \<le> clock w then (Inl (Error ''jwt expired''), w)
               else (Inr claims, w)))"

definition ref_jwt :: "ref_world jwt_api" where
  "ref_jwt = \<lparr>jwt_sign = ref_sign, jwt_verify = ref_verify, jwt_alg = ref_alg\<rparr>"

definition ref_authentication :: "ref_world authentication_api" where
  "ref_authentication =
     \<lparr>auth_getSecret = (\<lambda>w. (Inr ''s3cr3t'', w)),
      auth_attempt = (\<lambda>ip w. (Inr (ip \<notin> set (blocked w)), w)),
      auth_authenticate = (\<lambda>user password ip w.
         (Inr (if user = Str ''admin'' \<and> password = Str ''pw'' then Str ''admin'' else Null),
          w)),
      auth_verifyUser = None\<rparr>"

definition ref_cloud :: "bool \<Rightarrow> ref_world cloud_api" where
  "ref_cloud paired =
     \<lparr>cloud_isPaired = (\<lambda>w. (Inr paired, w)),
      cloud_getPairingInfo = Some ''bot1'',
      cloud_getCertificate = (\<lambda>w. (Inr ''CERT'', w))\<rparr>"

text \<open>
  \<open>ref_deps login_on paired\<close>: the helper's dependencies with login enabled or not and
  the deployment paired with the cloud or not.
\<close>

definition ref_deps :: "bool \<Rightarrow> bool \<Rightarrow> ref_world deps" where
  "ref_deps login_on paired =
     \<lparr>config = \<lparr>tokenExpiry = Str ''6 hours'', enabled = login_on, useCloud = paired\<rparr>,
      authentication = ref_authentication,
      cloud = ref_cloud paired,
      jwt = ref_jwt\<rparr>"

text \<open>
  The same dependencies with an identity hook: the credential collaborator has
  revoked the account \<^verbatim>\<open>alice\<close>, and its \<^verbatim>\<open>verifyUser\<close> returns \<^verbatim>\<open>false\<close> on claims
  whose \<^verbatim>\<open>user\<close> is that account and \<^verbatim>\<open>true\<close> on all others.
\<close>

definition ref_verifyUser :: "jsval \<Rightarrow> (ref_world, bool) extcall" where
  "ref_verifyUser decoded w = (Inr (get_prop decoded ''user'' \<noteq> Inr (Str ''alice'')), w)"

definition ref_deps_hook :: "bool \<Rightarrow> bool \<Rightarrow> ref_world deps" where
  "ref_deps_hook login_on paired =
     \<lparr>config = \<lparr>tokenExpiry = Str ''6 hours'', enabled = login_on, useCloud = paired\<rparr>,
      authentication = ref_authentication\<lparr>auth_verifyUser := Some ref_verifyUser\<rparr>,
      cloud = ref_cloud paired,
      jwt = ref_jwt\<rparr>"

definition unpaired :: snapshot where
  "unpaired = \<lparr>isCloudPaired = False, botId = None\<rparr>"

definition paired_bot1 :: snapshot where
  "paired_bot1 = \<lparr>isCloudPaired = True, botId = Some ''bot1''\<rparr>"

text \<open>
  The starting world: the clock at 100, and four tokens signed earlier. One is a
  proof-only token under the local secret, one a proof-only token and one a session
  token under the cloud certificate, and one states HS256 but was keyed with the
  certificate text.
\<close>

definition world0 :: "ref_world world" where
  "world0 =
     \<lparr>calls = [],
      ext = \<lparr>clock = 100,
             issued =
               [(''HS256.proof'', ''s3cr3t'',
                   Obj [(''user'', Str ''admin''), (''aud'', Str ''urn:bot/undefined''),
                        (''identity_proof_only'', Bool True)], 5000),
                (''RS256.proof'', ''CERT'',
                   Obj [(''user'', Str ''alice''), (''aud'', Str ''urn:bot/bot1''),
                        (''identity_proof_only'', Bool True)], 5000),
                (''RS256.session'', ''CERT'',
                   Obj [(''user'', Str ''alice''), (''aud'', Str ''urn:bot/bot1'')], 5000),
                (''HS256.keyed-with-cert'', ''CERT'',
                   Obj [(''user'', Str ''mallory''), (''aud'', Str ''urn:bot/bot1'')], 5000)],
             blocked = [''6.6.6.6'']\<rparr>\<rparr>"

section \<open>Basic facts\<close>

lemmas action_defs = bindA_def catchA_def returnA_def throwA_def liftE_def

lemma js_split_not_Nil: "js_split c xs \<noteq> []"
  by (induction xs) (auto split: list.splits)

lemma js_split_no_sep: "c \<notin> set a \<Longrightarrow> js_split c a = [a]"
  by (induction a) auto

lemma js_split_first: "c \<notin> set a \<Longrightarrow> js_split c (a @ c # r) = a # js_split c r"
  by (induction a) auto

lemma get_prop_defined: "get_prop v k = Inr x \<Longrightarrow> \<exists>y. get_prop v k' = Inr y"
  by (cases v) auto

text \<open>The algorithm that goes with the key is fixed by the pairing state alone.\<close>

lemma verificationKey_alg:
  "verificationKey d snap s = (Inr (k, alg), s1) \<Longrightarrow>
     alg = (if isCloudPaired snap then ''RS256'' else ''HS256'')"
  by (auto simp: verificationKey_def invoke_def action_defs
      split: if_splits sum.splits prod.splits)

text \<open>Which steps add a call of \<^verbatim>\<open>jwt.verify\<close> to the log, and with which allow-list.\<close>

lemma verificationKey_calls:
  "verificationKey d snap s = (r, s1) \<Longrightarrow>
     JwtVerify tok k algs \<in> set (calls s1) \<Longrightarrow> JwtVerify tok k algs \<in> set (calls s)"
  by (auto simp: verificationKey_def invoke_def action_defs
      split: if_splits sum.splits prod.splits)

lemma verifyUser_calls:
  "verifyUser d decoded s = (r, s1) \<Longrightarrow>
     JwtVerify tok k algs \<in> set (calls s1) \<Longrightarrow> JwtVerify tok k algs \<in> set (calls s)"
  by (auto simp: verifyUser_def invoke_def action_defs
      split: option.splits sum.splits prod.splits)

lemma jwtVerify_calls:
  "jwtVerify d t key alg s = (r, s1) \<Longrightarrow>
     JwtVerify tok k algs \<in> set (calls s1) \<Longrightarrow>
     JwtVerify tok k algs \<in> set (calls s) \<or> algs = [alg]"
  by (auto simp: jwtVerify_def invoke_def split: prod.splits)

lemma getUserIdentity_calls:
  assumes "JwtVerify tok k algs \<in> set (calls (snd (getUserIdentity d snap t s)))"
  shows "JwtVerify tok k algs \<in> set (calls s) \<or>
         algs = [if isCloudPaired snap then ''RS256'' else ''HS256'']"
  using assms
  by (auto simp: getUserIdentity_def action_defs
      split: sum.splits prod.splits if_splits
      dest!: verifyUser_calls jwtVerify_calls
      dest: verificationKey_calls verificationKey_alg)

lemma authenticateWithError_calls:
  assumes "JwtVerify tok k algs \<in> set (calls (snd (authenticateWithError d snap h s)))"
  shows "JwtVerify tok k algs \<in> set (calls s) \<or>
         algs = [if isCloudPaired snap then ''RS256'' else ''HS256'']"
  using assms
  by (auto simp: authenticateWithError_def action_defs Let_def
      split: sum.splits prod.splits if_splits
      dest!: verifyUser_calls jwtVerify_calls
      dest: verificationKey_calls verificationKey_alg)

text \<open>The reference library rejects a token whose algorithm is not on the allow-list.\<close>

lemma ref_verify_allow_list:
  "ref_alg t \<notin> Some ` set algs \<Longrightarrow> \<exists>e w'. ref_verify (Some t) key algs w = (Inl e, w')"
  by (auto simp: ref_verify_def split: option.splits)

text \<open>Evaluation of the helper's steps on the reference world.\<close>

lemma six_hours: "expiry (Str ''6 hours'') iat = Some (iat + 21600)"
  by (simp add: expiry_def timespan_ms_def is_digit_def lower_def decimal_def span_units_def)

lemmas ref_defs =
  ref_deps_def ref_deps_hook_def ref_verifyUser_def ref_jwt_def ref_authentication_def
  ref_cloud_def ref_sign_def six_hours ref_verify_def ref_alg_def world0_def unpaired_def
  paired_bot1_def

lemmas helper_defs =
  security_def login_def default_ip_def buildToken_def jwtSign_def jwtVerify_def
  verificationKey_def verifyUser_def authenticateWithError_def authenticate_def
  getUserIdentity_def refreshToken_def invoke_def element_def Let_def

text \<open>The identity hook only ever appends to the call log.\<close>

lemma verifyUser_log:
  "verifyUser d decoded s = (r, s') \<Longrightarrow> \<exists>extra. calls s' = calls s @ extra"
  by (auto simp: verifyUser_def invoke_def returnA_def split: option.splits prod.splits)

text \<open>
  What \<^verbatim>\<open>authentication.verifyUser ? await authentication.verifyUser(decoded) : true\<close>
  is in terms of the collaborator: \<^verbatim>\<open>true\<close> and no call when there is no hook, the
  hook's own result and one logged call when there is one.
\<close>

lemma verifyUser_hook:
  assumes "(auth_verifyUser (authentication d) = None \<and> verified \<and> s3 = s2) \<or>
           (\<exists>hook w3. auth_verifyUser (authentication d) = Some hook \<and>
              hook decoded (ext s2) = (Inr verified, w3) \<and>
              s3 = \<lparr>calls = calls s2 @ [VerifyUser decoded], ext = w3\<rparr>)"
  shows "verifyUser d decoded s2 = (Inr verified, s3)"
  using assms by (auto simp: verifyUser_def invoke_def returnA_def)

section \<open>Login\<close>

text \<open>
  C6. While paired, \<^verbatim>\<open>login\<close> with any user, password and ip returns the failure with
  the fixed root-login-disabled reason, and the world it returns is the world it was
  given: the call log has not grown, so neither \<^verbatim>\<open>authentication.attempt\<close> nor
  \<^verbatim>\<open>authentication.authenticate\<close> (nor any other collaborator) was invoked.
\<close>

theorem login_paired:
  "isCloudPaired snap \<Longrightarrow>
     login d snap user password ip s =
       (Inr (Failure ''Root authentication is disabled when using Botpress Cloud [BPCLOUDERR]''),
        s)"
  by (simp add: login_def returnA_def)

theorem login_paired_witness:
  "isCloudPaired paired_bot1 \<and>
   login (ref_deps True True) paired_bot1 (Str ''admin'') (Str ''pw'') (Some ''1.2.3.4'') world0 =
     (Inr (Failure ''Root authentication is disabled when using Botpress Cloud [BPCLOUDERR]''),
      world0) \<and>
   calls world0 = []"
  using login_paired [where snap = paired_bot1 and d = "ref_deps True True"
      and user = "Str ''admin''" and password = "Str ''pw''" and ip = "Some ''1.2.3.4''"
      and s = world0]
  by (simp add: paired_bot1_def world0_def)

text \<open>
  C8. While unpaired, two calls of \<^verbatim>\<open>login\<close> that both pass the throttle gate and both
  fail the credential check (the collaborator returns a falsy value, whatever the user
  name, the password and the address were) return the same result, the failure with the
  reason \<^verbatim>\<open>Bad username / password\<close>.
\<close>

theorem login_bad_credentials:
  assumes "\<not> isCloudPaired snap"
    and "auth_attempt (authentication d) (default_ip ip1) (ext s1) = (Inr True, w1)"
    and "auth_authenticate (authentication d) u1 p1 (default_ip ip1) w1 = (Inr v1, w1')"
    and "\<not> truthy v1"
    and "auth_attempt (authentication d) (default_ip ip2) (ext s2) = (Inr True, w2)"
    and "auth_authenticate (authentication d) u2 p2 (default_ip ip2) w2 = (Inr v2, w2')"
    and "\<not> truthy v2"
  shows "fst (login d snap u1 p1 ip1 s1) = Inr (Failure ''Bad username / password'') \<and>
         fst (login d snap u2 p2 ip2 s2) = fst (login d snap u1 p1 ip1 s1)"
  using assms
  by (simp add: login_def invoke_def action_defs Let_def)

theorem login_bad_credentials_witness:
  "\<not> isCloudPaired unpaired \<and>
   fst (login (ref_deps True False) unpaired (Str ''nobody'') (Str ''pw'') (Some ''1.2.3.4'')
          world0) = Inr (Failure ''Bad username / password'') \<and>
   fst (login (ref_deps True False) unpaired (Str ''admin'') (Str ''bad'') None world0) =
   fst (login (ref_deps True False) unpaired (Str ''nobody'') (Str ''pw'') (Some ''1.2.3.4'')
          world0)"
proof -
  have u: "\<not> isCloudPaired unpaired"
    by (simp add: unpaired_def)
  have a1: "auth_attempt (authentication (ref_deps True False)) (default_ip (Some ''1.2.3.4''))
              (ext world0) = (Inr True, ext world0)"
    by (simp add: ref_defs default_ip_def)
  have c1: "auth_authenticate (authentication (ref_deps True False)) (Str ''nobody'') (Str ''pw'')
              (default_ip (Some ''1.2.3.4'')) (ext world0) = (Inr Null, ext world0)"
    by (simp add: ref_defs)
  have a2: "auth_attempt (authentication (ref_deps True False)) (default_ip None)
              (ext world0) = (Inr True, ext world0)"
    by (simp add: ref_defs default_ip_def)
  have c2: "auth_authenticate (authentication (ref_deps True False)) (Str ''admin'') (Str ''bad'')
              (default_ip None) (ext world0) = (Inr Null, ext world0)"
    by (simp add: ref_defs)
  have f: "\<not> truthy Null"
    by simp
  show ?thesis
    using login_bad_credentials [OF u a1 c1 f a2 c2 f] u by simp
qed

text \<open>
  Whatever the library and the collaborators are: a token whose verified claims have no
  \<^verbatim>\<open>aud\<close> is never accepted by \<^verbatim>\<open>authenticate\<close>, paired or not, and the payload
  that \<^verbatim>\<open>buildToken\<close> hands to \<^verbatim>\<open>jwt.sign\<close> has none.
\<close>

lemma authenticate_without_audience:
  assumes "element (js_split CHR '' '' h) 0 = Some ''Bearer''"
    and "element (js_split CHR '' '' h) 1 = tok"
    and "verificationKey d snap s = (Inr (k, alg), s1)"
    and "jwtVerify d tok k alg s1 = (Inr decoded, s2)"
    and "get_prop decoded ''aud'' = Inr Undefined"
  shows "fst (authenticate d snap h s) = Inr (Bool False)"
  using assms
  by (auto simp: authenticate_def authenticateWithError_def action_defs Let_def
      split: sum.splits prod.splits)

lemma buildToken_payload_without_audience:
  "get_prop (Obj [(''user'', loginUser)]) ''aud'' = Inr Undefined"
  by simp

text \<open>
  C1. The claim: while unpaired, a login that passes the throttle gate and the credential
  check returns a token that \<^verbatim>\<open>authenticate\<close> then accepts on the header
  \<^verbatim>\<open>Bearer <token>\<close>, returning the principal. On the reference world (secret
  \<^verbatim>\<open>s3cr3t\<close>, the account \<^verbatim>\<open>admin\<close>/\<^verbatim>\<open>pw\<close>, unpaired, no bot identifier) the first half
  holds and the second does not: \<^verbatim>\<open>login\<close> succeeds with a token, and \<^verbatim>\<open>authenticate\<close>
  on that very token returns \<^verbatim>\<open>false\<close>. \<^verbatim>\<open>buildToken\<close> signs \<^verbatim>\<open>{user}\<close> without an
  audience, and the verifier compares the missing audience with \<^verbatim>\<open>urn:bot/undefined\<close>.
\<close>

theorem login_token_rejected_by_authenticate:
  "fst (security (ref_deps True False) world0) = Inr unpaired \<and>
   fst (login (ref_deps True False) unpaired (Str ''admin'') (Str ''pw'') (Some ''1.2.3.4'')
          world0) = Inr (Success (Some ''HS256.ttttt'')) \<and>
   fst (authenticate (ref_deps True False) unpaired ''Bearer HS256.ttttt''
          (snd (login (ref_deps True False) unpaired (Str ''admin'') (Str ''pw'')
                  (Some ''1.2.3.4'') world0))) = Inr (Bool False)"
  by (simp add: helper_defs action_defs ref_defs)

section \<open>Verification\<close>




text \<open>
  C4. Verification is called with an allow-list of exactly one algorithm, RS256 when
  paired and HS256 when unpaired. So, for a library that honours the allow-list (it
  fails on a token whose stated algorithm is not on the list, whatever the key), a token
  whose stated algorithm is not that one algorithm is rejected by all three operations:
  \<^verbatim>\<open>authenticate\<close> returns \<^verbatim>\<open>false\<close>, \<^verbatim>\<open>authenticateWithError\<close> throws the
  token-invalid error and \<^verbatim>\<open>getUserIdentity\<close> throws. Every call of \<^verbatim>\<open>jwt.verify\<close> that
  the three operations add to the log carries that one-element allow-list.
\<close>

theorem single_algorithm:
  assumes "element (js_split CHR '' '' h) 0 = Some ''Bearer''"
    and "element (js_split CHR '' '' h) 1 = Some t"
    and "\<And>key algs w. jwt_alg (jwt d) t \<notin> Some ` set algs \<Longrightarrow>
            \<exists>e w'. jwt_verify (jwt d) (Some t) key algs w = (Inl e, w')"
    and "jwt_alg (jwt d) t \<noteq> Some (if isCloudPaired snap then ''RS256'' else ''HS256'')"
  shows "fst (authenticate d snap h s) = Inr (Bool False) \<and>
         fst (authenticateWithError d snap h s)
           = Inl (Error ''The token is invalid or expired'') \<and>
         (\<exists>e. fst (getUserIdentity d snap (Some t) s) = Inl e) \<and>
         (\<forall>tok k algs.
            JwtVerify tok k algs \<in> set (calls (snd (authenticateWithError d snap h s))) \<or>
            JwtVerify tok k algs \<in> set (calls (snd (authenticate d snap h s))) \<or>
            JwtVerify tok k algs \<in> set (calls (snd (getUserIdentity d snap (Some t) s))) \<longrightarrow>
            JwtVerify tok k algs \<in> set (calls s) \<or>
            algs = [if isCloudPaired snap then ''RS256'' else ''HS256''])"
proof -
  have rej: "\<exists>e s2. jwtVerify d (Some t) k alg s1 = (Inl e, s2)"
    if "verificationKey d snap s = (Inr (k, alg), s1)" for k alg s1
  proof -
    have "alg = (if isCloudPaired snap then ''RS256'' else ''HS256'')"
      using that by (rule verificationKey_alg)
    then have "jwt_alg (jwt d) t \<notin> Some ` set [alg]"
      using assms(4) by auto
    from assms(3) [OF this, of k "ext s1"] show ?thesis
      by (auto simp: jwtVerify_def invoke_def)
  qed
  have awe: "fst (authenticateWithError d snap h s)
               = Inl (Error ''The token is invalid or expired'')"
    using assms(1,2) rej
    by (fastforce simp: authenticateWithError_def action_defs Let_def
        split: sum.splits prod.splits)
  have gui: "\<exists>e. fst (getUserIdentity d snap (Some t) s) = Inl e"
    using rej
    by (fastforce simp: getUserIdentity_def action_defs split: sum.splits prod.splits)
  have auth: "fst (authenticate d snap h s) = Inr (Bool False)"
    using awe by (auto simp: authenticate_def action_defs split: sum.splits prod.splits)
  have same: "snd (authenticate d snap h s) = snd (authenticateWithError d snap h s)"
    by (auto simp: authenticate_def action_defs split: sum.splits prod.splits)
  show ?thesis
    using awe gui auth authenticateWithError_calls [of _ _ _ d snap h s]
      getUserIdentity_calls [of _ _ _ d snap "Some t" s]
    unfolding same by blast
qed

text \<open>
  The witness: paired, a token that states HS256 and was keyed with the text of the
  certificate the verifier holds.
\<close>

theorem single_algorithm_witness:
  "element (js_split CHR '' '' ''Bearer HS256.keyed-with-cert'') 0 = Some ''Bearer'' \<and>
   element (js_split CHR '' '' ''Bearer HS256.keyed-with-cert'') 1
     = Some ''HS256.keyed-with-cert'' \<and>
   jwt_alg (jwt (ref_deps True True)) ''HS256.keyed-with-cert'' = Some ''HS256'' \<and>
   isCloudPaired paired_bot1 \<and>
   map_of (issued (ext world0)) ''HS256.keyed-with-cert'' =
     Some (''CERT'', Obj [(''user'', Str ''mallory''), (''aud'', Str ''urn:bot/bot1'')], 5000) \<and>
   fst (verificationKey (ref_deps True True) paired_bot1 world0) = Inr (''CERT'', ''RS256'') \<and>
   fst (authenticate (ref_deps True True) paired_bot1 ''Bearer HS256.keyed-with-cert'' world0)
     = Inr (Bool False) \<and>
   fst (authenticateWithError (ref_deps True True) paired_bot1
          ''Bearer HS256.keyed-with-cert'' world0)
     = Inl (Error ''The token is invalid or expired'') \<and>
   (\<exists>e. fst (getUserIdentity (ref_deps True True) paired_bot1
               (Some ''HS256.keyed-with-cert'') world0) = Inl e)"
proof -
  have alg: "jwt_alg (jwt (ref_deps True True)) ''HS256.keyed-with-cert'' = Some ''HS256''"
    by (simp add: ref_deps_def ref_jwt_def ref_alg_def)
  have p: "isCloudPaired paired_bot1"
    by (simp add: paired_bot1_def)
  have h0: "element (js_split CHR '' '' ''Bearer HS256.keyed-with-cert'') 0 = Some ''Bearer''"
    by (simp add: element_def)
  have h1: "element (js_split CHR '' '' ''Bearer HS256.keyed-with-cert'') 1
              = Some ''HS256.keyed-with-cert''"
    by (simp add: element_def)
  have c: "\<exists>e w'. jwt_verify (jwt (ref_deps True True)) (Some ''HS256.keyed-with-cert'') key
                     algs w = (Inl e, w')"
    if "jwt_alg (jwt (ref_deps True True)) ''HS256.keyed-with-cert'' \<notin> Some ` set algs"
    for key algs w
    using that ref_verify_allow_list [of "''HS256.keyed-with-cert''" algs key w]
    by (simp add: ref_deps_def ref_jwt_def)
  have m: "map_of (issued (ext world0)) ''HS256.keyed-with-cert'' =
     Some (''CERT'', Obj [(''user'', Str ''mallory''), (''aud'', Str ''urn:bot/bot1'')], 5000)"
    by (simp add: world0_def)
  have vk: "fst (verificationKey (ref_deps True True) paired_bot1 world0)
              = Inr (''CERT'', ''RS256'')"
    by (simp add: verificationKey_def p invoke_def action_defs ref_deps_def ref_cloud_def)
  show ?thesis
    using single_algorithm [of "''Bearer HS256.keyed-with-cert''" "''HS256.keyed-with-cert''"
        "ref_deps True True" paired_bot1 world0, OF h0 h1 c] alg p h0 h1 m vk
    by simp
qed

text \<open>
  C5, as the code has it. Take a header with the Bearer scheme whose token the library verifies, under the
  key and algorithm of the pairing state, to claims with a truthy
  \<^verbatim>\<open>identity_proof_only\<close>. Then \<^verbatim>\<open>authenticate\<close> returns \<^verbatim>\<open>false\<close>;
  \<^verbatim>\<open>authenticateWithError\<close> returns \<^verbatim>\<open>false\<close> when the identity hook returns and throws
  the token-invalid error when the hook throws, so it never returns the principal;
  and \<^verbatim>\<open>getUserIdentity\<close> on the same token, when the identity hook accepts and the
  audience is the bot's, returns the \<^verbatim>\<open>user\<close> claim: it is subject to the signature
  check, the identity hook and the audience check, and not to the proof-only flag.
\<close>

theorem proof_only_token:
  assumes "element (js_split CHR '' '' h) 0 = Some ''Bearer''"
    and "element (js_split CHR '' '' h) 1 = tok"
    and "verificationKey d snap s = (Inr (k, alg), s1)"
    and "jwtVerify d tok k alg s1 = (Inr decoded, s2)"
    and "get_prop decoded ''identity_proof_only'' = Inr po"
    and "truthy po"
  shows "fst (authenticate d snap h s) = Inr (Bool False) \<and>
         (\<forall>v s3. verifyUser d decoded s2 = (Inr v, s3) \<longrightarrow>
            authenticateWithError d snap h s = (Inr (Bool False), s3)) \<and>
         (\<forall>e s3. verifyUser d decoded s2 = (Inl e, s3) \<longrightarrow>
            authenticateWithError d snap h s =
              (Inl (Error ''The token is invalid or expired''), s3)) \<and>
         (\<forall>s3. verifyUser d decoded s2 = (Inr True, s3) \<and>
            get_prop decoded ''aud'' = Inr (Str (''urn:bot/'' @ template (botId snap))) \<longrightarrow>
            getUserIdentity d snap tok s = (get_prop decoded ''user'', s3))"
  using assms
  by (auto simp: authenticate_def authenticateWithError_def getUserIdentity_def action_defs
      Let_def split: sum.splits prod.splits)

theorem proof_only_token_witness:
  "map_of (issued (ext world0)) ''RS256.proof'' =
     Some (''CERT'', Obj [(''user'', Str ''alice''), (''aud'', Str ''urn:bot/bot1''),
                          (''identity_proof_only'', Bool True)], 5000) \<and>
   fst (authenticate (ref_deps True True) paired_bot1 ''Bearer RS256.proof'' world0)
     = Inr (Bool False) \<and>
   fst (authenticateWithError (ref_deps True True) paired_bot1 ''Bearer RS256.proof'' world0)
     = Inr (Bool False) \<and>
   fst (getUserIdentity (ref_deps True True) paired_bot1 (Some ''RS256.proof'') world0)
     = Inr (Str ''alice'')"
proof -
  define decoded where "decoded = Obj [(''user'', Str ''alice''), (''aud'', Str ''urn:bot/bot1''),
                          (''identity_proof_only'', Bool True)]"
  define s1 where "s1 = snd (verificationKey (ref_deps True True) paired_bot1 world0)"
  define s2 where
    "s2 = snd (jwtVerify (ref_deps True True) (Some ''RS256.proof'') ''CERT'' ''RS256'' s1)"
  have h0: "element (js_split CHR '' '' ''Bearer RS256.proof'') 0 = Some ''Bearer''"
    by (simp add: element_def)
  have h1: "element (js_split CHR '' '' ''Bearer RS256.proof'') 1 = Some ''RS256.proof''"
    by (simp add: element_def)
  have vk: "verificationKey (ref_deps True True) paired_bot1 world0
              = (Inr (''CERT'', ''RS256''), s1)"
    by (simp add: s1_def helper_defs action_defs ref_defs)
  have jv: "jwtVerify (ref_deps True True) (Some ''RS256.proof'') ''CERT'' ''RS256'' s1
              = (Inr decoded, s2)"
    by (simp add: s2_def s1_def decoded_def helper_defs action_defs ref_defs)
  have po: "get_prop decoded ''identity_proof_only'' = Inr (Bool True)"
    by (simp add: decoded_def)
  have tr: "truthy (Bool True)"
    by simp
  have vu: "verifyUser (ref_deps True True) decoded s2 = (Inr True, s2)"
    by (simp add: verifyUser_def returnA_def ref_defs)
  have aud: "get_prop decoded ''aud'' = Inr (Str (''urn:bot/'' @ template (botId paired_bot1)))"
    by (simp add: decoded_def paired_bot1_def)
  have usr: "get_prop decoded ''user'' = Inr (Str ''alice'')"
    by (simp add: decoded_def)
  have m: "map_of (issued (ext world0)) ''RS256.proof'' = Some (''CERT'', decoded, 5000)"
    by (simp add: world0_def decoded_def)
  note t = proof_only_token [OF h0 h1 vk jv po tr]
  from t have a: "fst (authenticate (ref_deps True True) paired_bot1 ''Bearer RS256.proof''
                         world0) = Inr (Bool False)"
    by blast
  from t vu have "authenticateWithError (ref_deps True True) paired_bot1 ''Bearer RS256.proof''
                    world0 = (Inr (Bool False), s2)"
    by blast
  then have b: "fst (authenticateWithError (ref_deps True True) paired_bot1
                       ''Bearer RS256.proof'' world0) = Inr (Bool False)"
    by simp
  from t vu aud have "getUserIdentity (ref_deps True True) paired_bot1 (Some ''RS256.proof'')
                        world0 = (get_prop decoded ''user'', s2)"
    by blast
  then have c: "fst (getUserIdentity (ref_deps True True) paired_bot1 (Some ''RS256.proof'')
                       world0) = Inr (Str ''alice'')"
    by (simp add: usr)
  from a b c m show ?thesis
    unfolding decoded_def by blast
qed

text \<open>
  C5, as the claim has it, fails where it says that \<^verbatim>\<open>getUserIdentity\<close> is subject only
  to the signature and audience checks: with an identity hook that rejects the account,
  the proof-only token \<^verbatim>\<open>RS256.proof\<close>, which verifies under the certificate with RS256
  and carries the bot's audience, does not give its identity: \<^verbatim>\<open>getUserIdentity\<close>
  returns \<^verbatim>\<open>false\<close>.
\<close>

theorem getUserIdentity_hook_rejects_proof_only:
  "fst (verificationKey (ref_deps_hook True True) paired_bot1 world0)
     = Inr (''CERT'', ''RS256'') \<and>
   fst (jwtVerify (ref_deps_hook True True) (Some ''RS256.proof'') ''CERT'' ''RS256'' world0)
     = Inr (Obj [(''user'', Str ''alice''), (''aud'', Str ''urn:bot/bot1''),
                 (''identity_proof_only'', Bool True)]) \<and>
   ''urn:bot/'' @ template (botId paired_bot1) = ''urn:bot/bot1'' \<and>
   fst (getUserIdentity (ref_deps_hook True True) paired_bot1 (Some ''RS256.proof'') world0)
     = Inr (Bool False) \<and>
   fst (getUserIdentity (ref_deps_hook True True) paired_bot1 (Some ''RS256.proof'') world0)
     \<noteq> Inr (Str ''alice'')"
  by (simp add: helper_defs action_defs ref_defs)

section \<open>Refresh\<close>

text \<open>
  C7. With login disabled, \<^verbatim>\<open>refreshToken\<close> only looks at the header: when the first
  space-separated part is \<^verbatim>\<open>Bearer\<close> it returns success with the second part as the
  token, and otherwise the failure with the wrong-scheme reason. In both cases the world
  it returns is the world it was given, so nothing was verified and no collaborator was
  called. For a token without a space, the header \<^verbatim>\<open>Bearer <token>\<close> gets the same token
  back.
\<close>

theorem refreshToken_disabled:
  "\<not> enabled (config d) \<Longrightarrow>
     (element (js_split CHR '' '' h) 0 = Some ''Bearer'' \<longrightarrow>
        refreshToken d snap h s = (Inr (Success (element (js_split CHR '' '' h) 1)), s)) \<and>
     (element (js_split CHR '' '' h) 0 \<noteq> Some ''Bearer'' \<longrightarrow>
        refreshToken d snap h s =
          (Inr (Failure (''Wrong scheme '' @ template (element (js_split CHR '' '' h) 0)
                           @ '', expected Bearer'')), s)) \<and>
     (CHR '' '' \<notin> set t \<longrightarrow>
        refreshToken d snap (''Bearer '' @ t) s = (Inr (Success (Some t)), s))"
  using js_split_first [of "CHR '' ''" "''Bearer''" t]
  by (simp add: refreshToken_def returnA_def Let_def js_split_no_sep element_def)

theorem refreshToken_disabled_witness:
  "\<not> enabled (config (ref_deps False True)) \<and>
   refreshToken (ref_deps False True) paired_bot1 ''Bearer garbage'' world0
     = (Inr (Success (Some ''garbage'')), world0) \<and>
   refreshToken (ref_deps False True) paired_bot1 ''Basic garbage'' world0
     = (Inr (Failure ''Wrong scheme Basic, expected Bearer''), world0)"
proof -
  have off: "\<not> enabled (config (ref_deps False True))"
    by (simp add: ref_deps_def)
  have h0: "element (js_split CHR '' '' ''Bearer garbage'') 0 = Some ''Bearer''"
    by (simp add: element_def)
  have h1: "element (js_split CHR '' '' ''Bearer garbage'') 1 = Some ''garbage''"
    by (simp add: element_def)
  have b0: "element (js_split CHR '' '' ''Basic garbage'') 0 = Some ''Basic''"
    by (simp add: element_def)
  have ns: "CHR '' '' \<notin> set ''garbage''"
    by simp
  from refreshToken_disabled [OF off, where h = "''Bearer garbage''" and t = "''garbage''"
      and snap = paired_bot1 and s = world0] h0 h1 ns
  have a: "refreshToken (ref_deps False True) paired_bot1 ''Bearer garbage'' world0
             = (Inr (Success (Some ''garbage'')), world0)"
    by simp
  from refreshToken_disabled [OF off, where h = "''Basic garbage''" and t = "''garbage''"
      and snap = paired_bot1 and s = world0] b0
  have b: "refreshToken (ref_deps False True) paired_bot1 ''Basic garbage'' world0
             = (Inr (Failure ''Wrong scheme Basic, expected Bearer''), world0)"
    by simp
  from off a b show ?thesis
    by blast
qed

text \<open>
  C10. The header is cut at every space. For a header \<open>a b c\<close>, where \<open>a\<close> and \<open>b\<close>
  have no space, the parts are \<open>a\<close>, \<open>b\<close> and the parts of \<open>c\<close>; the token is \<open>b\<close>, and
  what follows the second space plays no role: \<^verbatim>\<open>authenticateWithError\<close> does on the
  whole header what it does on \<open>a b\<close>; on the header \<^verbatim>\<open>Bearer b c\<close>, once the key is
  fetched, its next call is \<^verbatim>\<open>jwt.verify\<close> on the token \<open>b\<close>; and \<^verbatim>\<open>refreshToken\<close> with
  login disabled answers the header \<^verbatim>\<open>Bearer b c\<close> with the token \<open>b\<close>.
\<close>

theorem header_split_on_every_space:
  assumes "CHR '' '' \<notin> set a" and "CHR '' '' \<notin> set b"
  shows "js_split CHR '' '' (a @ '' '' @ b @ '' '' @ c) = a # b # js_split CHR '' '' c \<and>
         element (js_split CHR '' '' (a @ '' '' @ b @ '' '' @ c)) 1 = Some b \<and>
         authenticateWithError d snap (a @ '' '' @ b @ '' '' @ c) s =
           authenticateWithError d snap (a @ '' '' @ b) s \<and>
         (\<forall>k alg s1. verificationKey d snap s = (Inr (k, alg), s1) \<longrightarrow>
            take (Suc (length (calls s1)))
              (calls (snd (authenticateWithError d snap (''Bearer '' @ b @ '' '' @ c) s)))
            = calls s1 @ [JwtVerify (Some b) k [alg]]) \<and>
         (\<not> enabled (config d) \<longrightarrow>
            refreshToken d snap (''Bearer '' @ b @ '' '' @ c) s = (Inr (Success (Some b)), s))"
proof -
  have 1: "js_split CHR '' '' (a @ '' '' @ b @ '' '' @ c) = a # b # js_split CHR '' '' c"
    using assms by (simp add: js_split_first)
  have 2: "js_split CHR '' '' (a @ '' '' @ b) = [a, b]"
    using assms by (simp add: js_split_first js_split_no_sep)
  have 3: "js_split CHR '' '' (''Bearer '' @ b @ '' '' @ c)
             = ''Bearer'' # b # js_split CHR '' '' c"
    using assms(2) by (simp add: js_split_first)
  have 4: "take (Suc (length (calls s1)))
             (calls (snd (authenticateWithError d snap (''Bearer '' @ b @ '' '' @ c) s)))
           = calls s1 @ [JwtVerify (Some b) k [alg]]"
    if vk: "verificationKey d snap s = (Inr (k, alg), s1)" for k alg s1
  proof -
    obtain r s2 where jv: "jwtVerify d (Some b) k alg s1 = (r, s2)"
      by (cases "jwtVerify d (Some b) k alg s1")
    then have c2: "calls s2 = calls s1 @ [JwtVerify (Some b) k [alg]]"
      by (auto simp: jwtVerify_def invoke_def split: prod.splits)
    show ?thesis
    proof (cases r)
      case (Inl e)
      then show ?thesis
        using 3 vk jv c2
        by (simp add: authenticateWithError_def element_def action_defs Let_def)
    next
      case (Inr decoded)
      obtain r' s3 where vu: "verifyUser d decoded s2 = (r', s3)"
        by (cases "verifyUser d decoded s2")
      from verifyUser_log [OF vu] obtain extra where c3: "calls s3 = calls s2 @ extra"
        by blast
      have "calls (snd (authenticateWithError d snap (''Bearer '' @ b @ '' '' @ c) s))
              = calls s3"
        using 3 vk jv Inr vu
        by (auto simp: authenticateWithError_def element_def action_defs Let_def
            split: sum.splits)
      then show ?thesis
        using c2 c3 by simp
    qed
  qed
  show ?thesis
    using 1 2 3 4
    by (simp add: element_def authenticateWithError_def refreshToken_def returnA_def Let_def)
qed

theorem header_split_on_every_space_witness:
  "CHR '' '' \<notin> set ''Bearer'' \<and> CHR '' '' \<notin> set ''RS256.session'' \<and>
   js_split CHR '' '' ''Bearer RS256.session def ghi''
     = [''Bearer'', ''RS256.session'', ''def'', ''ghi''] \<and>
   element (js_split CHR '' '' ''Bearer RS256.session def ghi'') 1 = Some ''RS256.session'' \<and>
   authenticateWithError (ref_deps False True) paired_bot1 ''Bearer RS256.session def ghi''
       world0 =
     authenticateWithError (ref_deps False True) paired_bot1 ''Bearer RS256.session'' world0 \<and>
   fst (authenticateWithError (ref_deps False True) paired_bot1
          ''Bearer RS256.session def ghi'' world0) = Inr (Str ''alice'') \<and>
   calls (snd (authenticateWithError (ref_deps False True) paired_bot1
                 ''Bearer RS256.session def ghi'' world0))
     = [GetCertificate, JwtVerify (Some ''RS256.session'') ''CERT'' [''RS256'']] \<and>
   refreshToken (ref_deps False True) paired_bot1 ''Bearer RS256.session def ghi'' world0
     = (Inr (Success (Some ''RS256.session'')), world0)"
proof -
  define s1 where "s1 = snd (verificationKey (ref_deps False True) paired_bot1 world0)"
  have a: "CHR '' '' \<notin> set ''Bearer''"
    by simp
  have b: "CHR '' '' \<notin> set ''RS256.session''"
    by simp
  have off: "\<not> enabled (config (ref_deps False True))"
    by (simp add: ref_deps_def)
  have r: "js_split CHR '' '' ''def ghi'' = [''def'', ''ghi'']"
    by simp
  have vk: "verificationKey (ref_deps False True) paired_bot1 world0
              = (Inr (''CERT'', ''RS256''), s1)"
    by (simp add: s1_def helper_defs action_defs ref_defs)
  have c1: "calls s1 = [GetCertificate]"
    by (simp add: s1_def helper_defs action_defs ref_defs)
  have v: "fst (authenticateWithError (ref_deps False True) paired_bot1
                  ''Bearer RS256.session def ghi'' world0) = Inr (Str ''alice'')"
    by (simp add: helper_defs action_defs ref_defs)
  have n: "length (calls (snd (authenticateWithError (ref_deps False True) paired_bot1
                                  ''Bearer RS256.session def ghi'' world0))) = 2"
    by (simp add: helper_defs action_defs ref_defs)
  note t = header_split_on_every_space [OF a b, where c = "''def ghi''"
      and d = "ref_deps False True" and snap = paired_bot1 and s = world0]
  from t vk have "take (Suc (length (calls s1)))
      (calls (snd (authenticateWithError (ref_deps False True) paired_bot1
                     (''Bearer '' @ ''RS256.session'' @ '' '' @ ''def ghi'') world0)))
      = calls s1 @ [JwtVerify (Some ''RS256.session'') ''CERT'' [''RS256'']]"
    by blast
  then have log: "calls (snd (authenticateWithError (ref_deps False True) paired_bot1
                 ''Bearer RS256.session def ghi'' world0))
     = [GetCertificate, JwtVerify (Some ''RS256.session'') ''CERT'' [''RS256'']]"
    using c1 n by simp
  from t off r a b v log show ?thesis
    by simp
qed

text \<open>
  The part of C2 that holds. With login enabled, whenever \<^verbatim>\<open>authenticateWithError\<close>
  throws on a header, \<^verbatim>\<open>refreshToken\<close> returns the failure whose reason is the message
  of the thrown error, and that message is one of the two that
  \<^verbatim>\<open>authenticateWithError\<close> throws: the token-invalid message or the wrong-scheme message.
\<close>

lemma refreshToken_thrown_rejection:
  assumes "enabled (config d)"
    and "authenticateWithError d snap h s = (Inl e, s')"
  shows "refreshToken d snap h s = (Inr (Failure (message e)), s') \<and>
         (message e = ''The token is invalid or expired'' \<or>
          message e = ''Wrong scheme '' @ template (element (js_split CHR '' '' h) 0)
                        @ '', expected Bearer'')"
  using assms
  by (auto simp: refreshToken_def authenticateWithError_def action_defs Let_def
      split: sum.splits prod.splits if_splits)

lemma refreshToken_thrown_rejection_example:
  "enabled (config (ref_deps True True)) \<and>
   fst (authenticateWithError (ref_deps True True) paired_bot1 ''Bearer garbage'' world0)
     = Inl (Error ''The token is invalid or expired'') \<and>
   fst (refreshToken (ref_deps True True) paired_bot1 ''Bearer garbage'' world0)
     = Inr (Failure ''The token is invalid or expired'')"
proof -
  define s' where
    "s' = snd (authenticateWithError (ref_deps True True) paired_bot1 ''Bearer garbage'' world0)"
  have on: "enabled (config (ref_deps True True))"
    by (simp add: ref_deps_def)
  have e: "fst (authenticateWithError (ref_deps True True) paired_bot1 ''Bearer garbage'' world0)
             = Inl (Error ''The token is invalid or expired'')"
    by (simp add: helper_defs action_defs ref_defs)
  then have awe: "authenticateWithError (ref_deps True True) paired_bot1 ''Bearer garbage'' world0
                    = (Inl (Error ''The token is invalid or expired''), s')"
    by (simp add: s'_def prod_eq_iff)
  from refreshToken_thrown_rejection [OF on awe] on e show ?thesis
    by simp
qed

text \<open>
  C2. The claim: with login enabled, \<^verbatim>\<open>refreshToken\<close> never returns success for a token
  that \<^verbatim>\<open>authenticateWithError\<close> rejects. The code breaks it for the tokens that
  \<^verbatim>\<open>authenticateWithError\<close> rejects by returning \<^verbatim>\<open>false\<close>: unpaired and with login
  enabled, the proof-only token \<^verbatim>\<open>HS256.proof\<close> is rejected by
  \<^verbatim>\<open>authenticateWithError\<close> and by \<^verbatim>\<open>authenticate\<close>, and \<^verbatim>\<open>refreshToken\<close> on the same
  header returns success with a newly signed token, whose \<^verbatim>\<open>user\<close> claim is \<^verbatim>\<open>false\<close>.
  \<^verbatim>\<open>login\<close> tests the principal before it calls \<^verbatim>\<open>buildToken\<close>; \<^verbatim>\<open>refreshToken\<close> does not.
\<close>

theorem refreshToken_success_on_rejected_token:
  "enabled (config (ref_deps True False)) \<and>
   fst (authenticateWithError (ref_deps True False) unpaired ''Bearer HS256.proof'' world0)
     = Inr (Bool False) \<and>
   fst (authenticate (ref_deps True False) unpaired ''Bearer HS256.proof'' world0)
     = Inr (Bool False) \<and>
   fst (refreshToken (ref_deps True False) unpaired ''Bearer HS256.proof'' world0)
     = Inr (Success (Some ''HS256.ttttt'')) \<and>
   map_of (issued (ext (snd (refreshToken (ref_deps True False) unpaired
                               ''Bearer HS256.proof'' world0)))) ''HS256.ttttt''
     = Some (''s3cr3t'', Obj [(''user'', Bool False), (''iat'', Num 100), (''exp'', Num 21700),
                              (''iss'', Str ''bot.root'')], 21700)"
  by (simp add: helper_defs action_defs ref_defs)

text \<open>
  C9. Take a header with the Bearer scheme whose token the library verifies, and let
  the identity hook, when the credential collaborator has one, return on the verified
  claims (without a hook the check counts as \<^verbatim>\<open>true\<close>). If the claims are proof-only, or
  the audience is not the bot's, or the hook returned \<^verbatim>\<open>false\<close>, then
  \<^verbatim>\<open>authenticateWithError\<close> returns the value \<^verbatim>\<open>false\<close> and does not throw. With login
  enabled, \<^verbatim>\<open>refreshToken\<close> then signs the payload \<^verbatim>\<open>{user: false}\<close> and, when the secret
  is fetched and the library signs, returns success with that new token.
\<close>

theorem refresh_after_soft_rejection:
  assumes "element (js_split CHR '' '' h) 0 = Some ''Bearer''"
    and "element (js_split CHR '' '' h) 1 = tok"
    and "verificationKey d snap s = (Inr (k, alg), s1)"
    and "jwtVerify d tok k alg s1 = (Inr decoded, s2)"
    and "(auth_verifyUser (authentication d) = None \<and> verified \<and> s3 = s2) \<or>
         (\<exists>hook w3. auth_verifyUser (authentication d) = Some hook \<and>
            hook decoded (ext s2) = (Inr verified, w3) \<and>
            s3 = \<lparr>calls = calls s2 @ [VerifyUser decoded], ext = w3\<rparr>)"
    and "get_prop decoded ''identity_proof_only'' = Inr po"
    and "truthy po
         \<or> get_prop decoded ''aud'' \<noteq> Inr (Str (''urn:bot/'' @ template (botId snap)))
         \<or> \<not> verified"
  shows "authenticateWithError d snap h s = (Inr (Bool False), s3) \<and>
         (\<forall>secret w4 t w5.
            enabled (config d) \<and>
            auth_getSecret (authentication d) (ext s3) = (Inr secret, w4) \<and>
            jwt_sign (jwt d) (Obj [(''user'', Bool False)]) secret
              \<lparr>issuer = ''bot.root'', expiresIn = tokenExpiry (config d),
               algorithm = ''HS256''\<rparr> w4 = (Inr t, w5) \<longrightarrow>
            refreshToken d snap h s =
              (Inr (Success (Some t)),
               \<lparr>calls = calls s3 @ [GetSecret,
                          JwtSign (Obj [(''user'', Bool False)]) secret ''HS256''],
                ext = w5\<rparr>))"
proof -
  have vu: "verifyUser d decoded s2 = (Inr verified, s3)"
    using assms(5) by (rule verifyUser_hook)
  obtain a where a: "get_prop decoded ''aud'' = Inr a"
    using get_prop_defined [OF assms(6)] by blast
  have awe: "authenticateWithError d snap h s = (Inr (Bool False), s3)"
    using assms(1-4,6,7) vu a
    by (auto simp: authenticateWithError_def action_defs Let_def)
  show ?thesis
    using awe
    by (auto simp: refreshToken_def buildToken_def jwtSign_def invoke_def action_defs)
qed

text \<open>
  The witness runs the three cases. The hook: paired, the hook returns \<^verbatim>\<open>false\<close> on the
  session token of the revoked account. The audience: unpaired, the token that \<^verbatim>\<open>login\<close>
  has just issued, which has no audience. Proof-only: paired, no hook, the proof-only
  token.
\<close>

theorem refresh_after_soft_rejection_witness:
  "auth_verifyUser (authentication (ref_deps_hook True True)) = Some ref_verifyUser \<and>
   fst (ref_verifyUser (Obj [(''user'', Str ''alice''), (''aud'', Str ''urn:bot/bot1'')])
          (ext world0)) = Inr False \<and>
   fst (authenticateWithError (ref_deps_hook True True) paired_bot1 ''Bearer RS256.session''
          world0) = Inr (Bool False) \<and>
   calls (snd (authenticateWithError (ref_deps_hook True True) paired_bot1
                 ''Bearer RS256.session'' world0))
     = [GetCertificate, JwtVerify (Some ''RS256.session'') ''CERT'' [''RS256''],
        VerifyUser (Obj [(''user'', Str ''alice''), (''aud'', Str ''urn:bot/bot1'')])] \<and>
   fst (refreshToken (ref_deps_hook True True) paired_bot1 ''Bearer RS256.session'' world0)
     = Inr (Success (Some ''HS256.ttttt'')) \<and>
   map_of (issued (ext (snd (refreshToken (ref_deps_hook True True) paired_bot1
                               ''Bearer RS256.session'' world0)))) ''HS256.ttttt''
     = Some (''s3cr3t'', Obj [(''user'', Bool False), (''iat'', Num 100), (''exp'', Num 21700),
                              (''iss'', Str ''bot.root'')], 21700) \<and>
   fst (login (ref_deps True False) unpaired (Str ''admin'') (Str ''pw'') None world0)
     = Inr (Success (Some ''HS256.ttttt'')) \<and>
   fst (authenticateWithError (ref_deps True False) unpaired ''Bearer HS256.ttttt''
          (snd (login (ref_deps True False) unpaired (Str ''admin'') (Str ''pw'') None world0)))
     = Inr (Bool False) \<and>
   fst (refreshToken (ref_deps True False) unpaired ''Bearer HS256.ttttt''
          (snd (login (ref_deps True False) unpaired (Str ''admin'') (Str ''pw'') None world0)))
     = Inr (Success (Some ''HS256.tttttt'')) \<and>
   fst (authenticateWithError (ref_deps True True) paired_bot1 ''Bearer RS256.proof'' world0)
     = Inr (Bool False) \<and>
   fst (refreshToken (ref_deps True True) paired_bot1 ''Bearer RS256.proof'' world0)
     = Inr (Success (Some ''HS256.ttttt''))"
proof -
  let ?opts = "\<lparr>issuer = ''bot.root'', expiresIn = Str ''6 hours'', algorithm = ''HS256''\<rparr>"
  let ?false = "Obj [(''user'', Bool False)]"
  have on: "enabled (config (ref_deps True True))" "enabled (config (ref_deps_hook True True))"
    "enabled (config (ref_deps True False))"
    by (simp_all add: ref_defs)
  have tr: "truthy (Bool True)"
    by simp

  \<comment> \<open>the hook returns false\<close>
  define session where
    "session = Obj [(''user'', Str ''alice''), (''aud'', Str ''urn:bot/bot1'')]"
  define a1 where "a1 = snd (verificationKey (ref_deps_hook True True) paired_bot1 world0)"
  define a2 where
    "a2 = snd (jwtVerify (ref_deps_hook True True) (Some ''RS256.session'') ''CERT'' ''RS256'' a1)"
  define a3 where "a3 = \<lparr>calls = calls a2 @ [VerifyUser session], ext = ext a2\<rparr>"
  define a5 where "a5 = snd (ref_sign ?false ''s3cr3t'' ?opts (ext a3))"
  have ah0: "element (js_split CHR '' '' ''Bearer RS256.session'') 0 = Some ''Bearer''"
    by (simp add: element_def)
  have ah1: "element (js_split CHR '' '' ''Bearer RS256.session'') 1 = Some ''RS256.session''"
    by (simp add: element_def)
  have avk: "verificationKey (ref_deps_hook True True) paired_bot1 world0
               = (Inr (''CERT'', ''RS256''), a1)"
    by (simp add: a1_def helper_defs action_defs ref_defs)
  have ajv: "jwtVerify (ref_deps_hook True True) (Some ''RS256.session'') ''CERT'' ''RS256'' a1
               = (Inr session, a2)"
    by (simp add: a2_def a1_def session_def helper_defs action_defs ref_defs)
  have hk: "auth_verifyUser (authentication (ref_deps_hook True True)) = Some ref_verifyUser"
    by (simp add: ref_deps_hook_def)
  have hr: "ref_verifyUser session (ext a2) = (Inr False, ext a2)"
    by (simp add: ref_verifyUser_def session_def)
  have ahook: "(auth_verifyUser (authentication (ref_deps_hook True True)) = None \<and> False
                  \<and> a3 = a2) \<or>
               (\<exists>hook w3. auth_verifyUser (authentication (ref_deps_hook True True)) = Some hook \<and>
                  hook session (ext a2) = (Inr False, w3) \<and>
                  a3 = \<lparr>calls = calls a2 @ [VerifyUser session], ext = w3\<rparr>)"
    using hk hr by (simp add: a3_def)
  have apo: "get_prop session ''identity_proof_only'' = Inr Undefined"
    by (simp add: session_def)
  have ac: "truthy Undefined
            \<or> get_prop session ''aud'' \<noteq> Inr (Str (''urn:bot/'' @ template (botId paired_bot1)))
            \<or> \<not> False"
    by simp
  have ags: "auth_getSecret (authentication (ref_deps_hook True True)) (ext a3)
               = (Inr ''s3cr3t'', ext a3)"
    by (simp add: ref_defs)
  have asg: "jwt_sign (jwt (ref_deps_hook True True)) ?false ''s3cr3t''
               \<lparr>issuer = ''bot.root'',
                expiresIn = tokenExpiry (config (ref_deps_hook True True)),
                algorithm = ''HS256''\<rparr> (ext a3) = (Inr ''HS256.ttttt'', a5)"
    by (simp add: a5_def a3_def a2_def a1_def helper_defs action_defs ref_defs)
  note ta = refresh_after_soft_rejection [OF ah0 ah1 avk ajv ahook apo ac]
  from ta have "authenticateWithError (ref_deps_hook True True) paired_bot1
                  ''Bearer RS256.session'' world0 = (Inr (Bool False), a3)"
    by blast
  then have A1: "fst (authenticateWithError (ref_deps_hook True True) paired_bot1
                        ''Bearer RS256.session'' world0) = Inr (Bool False)"
    and A2: "calls (snd (authenticateWithError (ref_deps_hook True True) paired_bot1
                 ''Bearer RS256.session'' world0))
      = [GetCertificate, JwtVerify (Some ''RS256.session'') ''CERT'' [''RS256''],
         VerifyUser (Obj [(''user'', Str ''alice''), (''aud'', Str ''urn:bot/bot1'')])]"
    by (simp_all add: a3_def a2_def a1_def session_def helper_defs action_defs ref_defs)
  from ta on(2) ags asg
  have ar: "refreshToken (ref_deps_hook True True) paired_bot1 ''Bearer RS256.session'' world0
         = (Inr (Success (Some ''HS256.ttttt'')),
            \<lparr>calls = calls a3 @ [GetSecret, JwtSign ?false ''s3cr3t'' ''HS256''], ext = a5\<rparr>)"
    by blast
  then have A3: "fst (refreshToken (ref_deps_hook True True) paired_bot1
                        ''Bearer RS256.session'' world0) = Inr (Success (Some ''HS256.ttttt''))"
    by simp
  have A4: "map_of (issued (ext (snd (refreshToken (ref_deps_hook True True) paired_bot1
                               ''Bearer RS256.session'' world0)))) ''HS256.ttttt''
     = Some (''s3cr3t'', Obj [(''user'', Bool False), (''iat'', Num 100), (''exp'', Num 21700),
                              (''iss'', Str ''bot.root'')], 21700)"
    unfolding ar
    by (simp add: a5_def a3_def a2_def a1_def helper_defs action_defs ref_defs)
  have A0: "fst (ref_verifyUser (Obj [(''user'', Str ''alice''), (''aud'', Str ''urn:bot/bot1'')])
                   (ext world0)) = Inr False"
    by (simp add: ref_verifyUser_def)

  \<comment> \<open>the audience is missing\<close>
  define l0 where
    "l0 = snd (login (ref_deps True False) unpaired (Str ''admin'') (Str ''pw'') None world0)"
  define issued1 where
    "issued1 = Obj [(''user'', Str ''admin''), (''iat'', Num 100), (''exp'', Num 21700),
                    (''iss'', Str ''bot.root'')]"
  define b1 where "b1 = snd (verificationKey (ref_deps True False) unpaired l0)"
  define b2 where
    "b2 = snd (jwtVerify (ref_deps True False) (Some ''HS256.ttttt'') ''s3cr3t'' ''HS256'' b1)"
  define b5 where "b5 = snd (ref_sign ?false ''s3cr3t'' ?opts (ext b2))"
  have B0: "fst (login (ref_deps True False) unpaired (Str ''admin'') (Str ''pw'') None world0)
              = Inr (Success (Some ''HS256.ttttt''))"
    by (simp add: helper_defs action_defs ref_defs)
  have bh0: "element (js_split CHR '' '' ''Bearer HS256.ttttt'') 0 = Some ''Bearer''"
    by (simp add: element_def)
  have bh1: "element (js_split CHR '' '' ''Bearer HS256.ttttt'') 1 = Some ''HS256.ttttt''"
    by (simp add: element_def)
  have bvk: "verificationKey (ref_deps True False) unpaired l0 = (Inr (''s3cr3t'', ''HS256''), b1)"
    by (simp add: b1_def helper_defs action_defs ref_defs)
  have bjv: "jwtVerify (ref_deps True False) (Some ''HS256.ttttt'') ''s3cr3t'' ''HS256'' b1
               = (Inr issued1, b2)"
    by (simp add: b2_def b1_def l0_def issued1_def helper_defs action_defs ref_defs)
  have bhook: "(auth_verifyUser (authentication (ref_deps True False)) = None \<and> True
                  \<and> b2 = b2) \<or>
               (\<exists>hook w3. auth_verifyUser (authentication (ref_deps True False)) = Some hook \<and>
                  hook issued1 (ext b2) = (Inr True, w3) \<and>
                  b2 = \<lparr>calls = calls b2 @ [VerifyUser issued1], ext = w3\<rparr>)"
    by (simp add: ref_defs)
  have bpo: "get_prop issued1 ''identity_proof_only'' = Inr Undefined"
    by (simp add: issued1_def)
  have bc: "truthy Undefined
            \<or> get_prop issued1 ''aud'' \<noteq> Inr (Str (''urn:bot/'' @ template (botId unpaired)))
            \<or> \<not> True"
    by (simp add: issued1_def)
  have bgs: "auth_getSecret (authentication (ref_deps True False)) (ext b2)
               = (Inr ''s3cr3t'', ext b2)"
    by (simp add: ref_defs)
  have bsg: "jwt_sign (jwt (ref_deps True False)) ?false ''s3cr3t''
               \<lparr>issuer = ''bot.root'', expiresIn = tokenExpiry (config (ref_deps True False)),
                algorithm = ''HS256''\<rparr> (ext b2) = (Inr ''HS256.tttttt'', b5)"
    by (simp add: b5_def b2_def b1_def l0_def helper_defs action_defs ref_defs)
  note tb = refresh_after_soft_rejection [OF bh0 bh1 bvk bjv bhook bpo bc]
  from tb have "authenticateWithError (ref_deps True False) unpaired ''Bearer HS256.ttttt'' l0
                  = (Inr (Bool False), b2)"
    by blast
  then have B1: "fst (authenticateWithError (ref_deps True False) unpaired
                        ''Bearer HS256.ttttt'' l0) = Inr (Bool False)"
    by simp
  from tb on(3) bgs bsg
  have "refreshToken (ref_deps True False) unpaired ''Bearer HS256.ttttt'' l0
         = (Inr (Success (Some ''HS256.tttttt'')),
            \<lparr>calls = calls b2 @ [GetSecret, JwtSign ?false ''s3cr3t'' ''HS256''], ext = b5\<rparr>)"
    by blast
  then have B2: "fst (refreshToken (ref_deps True False) unpaired ''Bearer HS256.ttttt'' l0)
                   = Inr (Success (Some ''HS256.tttttt''))"
    by simp

  \<comment> \<open>the token is proof-only\<close>
  define proof_claims where
    "proof_claims = Obj [(''user'', Str ''alice''), (''aud'', Str ''urn:bot/bot1''),
                         (''identity_proof_only'', Bool True)]"
  define c1 where "c1 = snd (verificationKey (ref_deps True True) paired_bot1 world0)"
  define c2 where
    "c2 = snd (jwtVerify (ref_deps True True) (Some ''RS256.proof'') ''CERT'' ''RS256'' c1)"
  define c5 where "c5 = snd (ref_sign ?false ''s3cr3t'' ?opts (ext c2))"
  have ch0: "element (js_split CHR '' '' ''Bearer RS256.proof'') 0 = Some ''Bearer''"
    by (simp add: element_def)
  have ch1: "element (js_split CHR '' '' ''Bearer RS256.proof'') 1 = Some ''RS256.proof''"
    by (simp add: element_def)
  have cvk: "verificationKey (ref_deps True True) paired_bot1 world0
               = (Inr (''CERT'', ''RS256''), c1)"
    by (simp add: c1_def helper_defs action_defs ref_defs)
  have cjv: "jwtVerify (ref_deps True True) (Some ''RS256.proof'') ''CERT'' ''RS256'' c1
               = (Inr proof_claims, c2)"
    by (simp add: c2_def c1_def proof_claims_def helper_defs action_defs ref_defs)
  have chook: "(auth_verifyUser (authentication (ref_deps True True)) = None \<and> True
                  \<and> c2 = c2) \<or>
               (\<exists>hook w3. auth_verifyUser (authentication (ref_deps True True)) = Some hook \<and>
                  hook proof_claims (ext c2) = (Inr True, w3) \<and>
                  c2 = \<lparr>calls = calls c2 @ [VerifyUser proof_claims], ext = w3\<rparr>)"
    by (simp add: ref_defs)
  have cpo: "get_prop proof_claims ''identity_proof_only'' = Inr (Bool True)"
    by (simp add: proof_claims_def)
  have cc: "truthy (Bool True)
            \<or> get_prop proof_claims ''aud''
                \<noteq> Inr (Str (''urn:bot/'' @ template (botId paired_bot1)))
            \<or> \<not> True"
    by simp
  have cgs: "auth_getSecret (authentication (ref_deps True True)) (ext c2)
               = (Inr ''s3cr3t'', ext c2)"
    by (simp add: ref_defs)
  have csg: "jwt_sign (jwt (ref_deps True True)) ?false ''s3cr3t''
               \<lparr>issuer = ''bot.root'', expiresIn = tokenExpiry (config (ref_deps True True)),
                algorithm = ''HS256''\<rparr> (ext c2) = (Inr ''HS256.ttttt'', c5)"
    by (simp add: c5_def c2_def c1_def helper_defs action_defs ref_defs)
  note tc = refresh_after_soft_rejection [OF ch0 ch1 cvk cjv chook cpo cc]
  from tc have "authenticateWithError (ref_deps True True) paired_bot1 ''Bearer RS256.proof''
                  world0 = (Inr (Bool False), c2)"
    by blast
  then have C1: "fst (authenticateWithError (ref_deps True True) paired_bot1
                        ''Bearer RS256.proof'' world0) = Inr (Bool False)"
    by simp
  from tc on(1) cgs csg
  have "refreshToken (ref_deps True True) paired_bot1 ''Bearer RS256.proof'' world0
         = (Inr (Success (Some ''HS256.ttttt'')),
            \<lparr>calls = calls c2 @ [GetSecret, JwtSign ?false ''s3cr3t'' ''HS256''], ext = c5\<rparr>)"
    by blast
  then have C2: "fst (refreshToken (ref_deps True True) paired_bot1 ''Bearer RS256.proof''
                        world0) = Inr (Success (Some ''HS256.ttttt''))"
    by simp

  from hk A0 A1 A2 A3 A4 B0 B1 B2 C1 C2 show ?thesis
    unfolding l0_def by blast
qed

end
